theory Spec2Isabelle
  imports Main "HOL-Library.Char_ord" "HOL-Library.List_Lexorder" "HOL-Library.Sublist"
begin

section \<open>Python string primitives used by the optimizer\<close>

text \<open>
  A document is a Python \<open>str\<close>, modelled as a \<open>string\<close>: one \<open>char\<close> per code point,
  for documents whose code points are below 256. The source is
  \<^verbatim>\<open>src/dockerfile-optimizer.py\<close>, class \<^verbatim>\<open>DockerfileOptimizer\<close>.
\<close>

abbreviation nl :: char where
  "nl \<equiv> CHR 0x0A"

abbreviation bs :: char where
  "bs \<equiv> CHR 0x5C"

text \<open>
  The class \<^verbatim>\<open>\s\<close> of a \<open>str\<close> pattern and the separators of \<^verbatim>\<open>str.split()\<close>: the code
  points for which \<^verbatim>\<open>str.isspace\<close> holds, below 256 these are 9 to 13, 28 to 32, 133
  and 160.
\<close>

definition isspace :: "char \<Rightarrow> bool" where
  "isspace c = (c \<in> set [CHR 0x09, CHR 0x0A, CHR 0x0B, CHR 0x0C, CHR 0x0D,
     CHR 0x1C, CHR 0x1D, CHR 0x1E, CHR 0x1F, CHR 0x20, CHR 0x85, CHR 0xA0])"

text \<open>The class \<^verbatim>\<open>[\s\\]\<close>: white space or a backslash.\<close>

definition space_or_bs :: "char \<Rightarrow> bool" where
  "space_or_bs c = (isspace c \<or> c = bs)"

text \<open>The dot of a pattern compiled without \<^verbatim>\<open>re.DOTALL\<close>: anything but a newline.\<close>

definition dot :: "char \<Rightarrow> bool" where
  "dot c = (c \<noteq> nl)"

text \<open>The dot under \<^verbatim>\<open>re.DOTALL\<close>.\<close>

definition dot_all :: "char \<Rightarrow> bool" where
  "dot_all c = True"

text \<open>\<^verbatim>\<open>s.split()\<close>: the maximal runs of characters that are not white space.\<close>

fun split_from :: "string \<Rightarrow> string \<Rightarrow> string list" where
  "split_from cur [] = (if cur = [] then [] else [cur])"
| "split_from cur (c # cs) =
     (if isspace c then (if cur = [] then [] else [cur]) @ split_from [] cs
      else split_from (cur @ [c]) cs)"

definition py_split :: "string \<Rightarrow> string list" where
  "py_split s = split_from [] s"

text \<open>\<^verbatim>\<open>sep.join(xs)\<close>.\<close>

fun py_join :: "string \<Rightarrow> string list \<Rightarrow> string" where
  "py_join sep [] = []"
| "py_join sep [x] = x"
| "py_join sep (x # y # ys) = x @ sep @ py_join sep (y # ys)"

text \<open>
  \<^verbatim>\<open>s.replace(old, '')\<close>: every occurrence of \<open>old\<close> is dropped, scanning from the left
  and never overlapping. An empty \<open>old\<close> leaves the string as it is.
\<close>

fun remove_all :: "string \<Rightarrow> string \<Rightarrow> string" where
  "remove_all old [] = []"
| "remove_all old (c # cs) =
     (if old \<noteq> [] \<and> prefix old (c # cs)
      then remove_all old (drop (length old - 1) cs)
      else c # remove_all old cs)"

text \<open>
  \<^verbatim>\<open>s.find(sub, start)\<close>: the lowest index at or after \<open>start\<close> where \<open>sub\<close> occurs, or
  \<open>-1\<close>. A negative \<open>start\<close> counts from the end of the string and is clamped at 0.
\<close>

fun find_index :: "string \<Rightarrow> string \<Rightarrow> nat option" where
  "find_index sub [] = (if sub = [] then Some 0 else None)"
| "find_index sub (c # cs) =
     (if prefix sub (c # cs) then Some 0
      else map_option Suc (find_index sub cs))"

definition py_find :: "string \<Rightarrow> string \<Rightarrow> int \<Rightarrow> int" where
  "py_find s sub start =
     (let n = int (length s);
          st = (if start < 0 then max 0 (start + n) else start)
      in if n < st then - 1
         else (case find_index sub (drop (nat st) s) of
                 None \<Rightarrow> - 1
               | Some i \<Rightarrow> st + int i))"

text \<open>
  The slices \<^verbatim>\<open>s[:i]\<close> and \<^verbatim>\<open>s[i:]\<close>: a negative bound counts from the end, and the bound
  is clamped to the string. Slicing never raises.
\<close>

definition slice_bound :: "string \<Rightarrow> int \<Rightarrow> nat" where
  "slice_bound s i =
     (let n = int (length s); j = (if i < 0 then i + n else i)
      in nat (max 0 (min n j)))"

definition slice_to :: "string \<Rightarrow> int \<Rightarrow> string" where
  "slice_to s i = take (slice_bound s i) s"

definition slice_from :: "string \<Rightarrow> int \<Rightarrow> string" where
  "slice_from s i = drop (slice_bound s i) s"

section \<open>The regular expressions, as backtracking matchers\<close>

text \<open>
  A matcher is run at one position of the subject: it gets the text from that position
  on and returns what \<^verbatim>\<open>re.findall\<close> reports for a match there, with the length of the
  match. The repetitions of the patterns all repeat a single character class, so the
  backtracking of Python's engine is a search over the number of characters taken:
  a greedy repetition tries the longest run first, a lazy one the shortest, and the
  first count for which the rest of the pattern matches wins.
\<close>

fun first_some :: "(nat \<Rightarrow> 'a option) \<Rightarrow> nat list \<Rightarrow> 'a option" where
  "first_some f [] = None"
| "first_some f (i # js) = (case f i of Some r \<Rightarrow> Some r | None \<Rightarrow> first_some f js)"

definition greedy ::
  "(char \<Rightarrow> bool) \<Rightarrow> nat \<Rightarrow> string \<Rightarrow> (string \<Rightarrow> string \<Rightarrow> 'a option) \<Rightarrow> 'a option" where
  "greedy cls lo s k =
     first_some (\<lambda>i. k (take i s) (drop i s)) (rev [lo ..< Suc (length (takeWhile cls s))])"

definition lazy ::
  "(char \<Rightarrow> bool) \<Rightarrow> nat \<Rightarrow> string \<Rightarrow> (string \<Rightarrow> string \<Rightarrow> 'a option) \<Rightarrow> 'a option" where
  "lazy cls lo s k =
     first_some (\<lambda>i. k (take i s) (drop i s)) [lo ..< Suc (length (takeWhile cls s))]"

text \<open>A literal of the pattern: the rest of the subject after it, when it is there.\<close>

definition lit :: "string \<Rightarrow> string \<Rightarrow> string option" where
  "lit p s = (if prefix p s then Some (drop (length p) s) else None)"

text \<open>
  The lookahead \<^verbatim>\<open>(?=\n[^\n]|$)\<close>: a newline followed by a character that is not a
  newline, or the end of the subject, which \<^verbatim>\<open>$\<close> also sees just before a final newline.
\<close>

fun lookahead_eol :: "string \<Rightarrow> bool" where
  "lookahead_eol [] = True"
| "lookahead_eol [c] = (c = nl)"
| "lookahead_eol (c # d # cs) = (c = nl \<and> d \<noteq> nl)"

text \<open>
  \<^verbatim>\<open>re.findall\<close>: the matches of a pattern, scanning from the left. After a match the scan
  goes on where the match ended (one character further after an empty match); where the
  pattern does not match, one character further.
\<close>

fun findall :: "(string \<Rightarrow> ('a \<times> nat) option) \<Rightarrow> string \<Rightarrow> 'a list" where
  "findall m [] = []"
| "findall m (c # cs) =
     (case m (c # cs) of
        None \<Rightarrow> findall m cs
      | Some (x, n) \<Rightarrow> x # findall m (drop (n - 1) cs))"

text \<open>
  \<^verbatim>\<open>.*?(?=\n[^\n]|$)\<close> under \<^verbatim>\<open>re.DOTALL\<close>, after the literal \<open>p\<close> that opened the match: the
  match is the whole text, no group.
\<close>

definition span_rest :: "string \<Rightarrow> string \<Rightarrow> (string \<times> nat) option" where
  "span_rest p s =
     lazy dot_all 0 s
       (\<lambda>body rest. if lookahead_eol rest then Some (p @ body, length p + length body) else None)"

text \<open>\<^verbatim>\<open>apt_pattern = r'RUN apt-get update.*?(?=\n[^\n]|$)'\<close>\<close>

definition apt_pattern :: "string \<Rightarrow> (string \<times> nat) option" where
  "apt_pattern s =
     (case lit ''RUN apt-get update'' s of
        None \<Rightarrow> None
      | Some r \<Rightarrow> span_rest ''RUN apt-get update'' r)"

text \<open>
  \<^verbatim>\<open>pip_pattern = r'RUN (?:pip|pip3) install.*?(?=\n[^\n]|$)'\<close>: the alternative \<open>pip\<close> is
  tried first, \<open>pip3\<close> when the pattern fails after it.
\<close>

definition pip_pattern :: "string \<Rightarrow> (string \<times> nat) option" where
  "pip_pattern s =
     (case lit ''RUN '' s of
        None \<Rightarrow> None
      | Some r \<Rightarrow>
          (case Option.bind (Option.bind (lit ''pip'' r) (lit '' install''))
                  (span_rest ''RUN pip install'') of
             Some m \<Rightarrow> Some m
           | None \<Rightarrow>
               Option.bind (Option.bind (lit ''pip3'' r) (lit '' install''))
                 (span_rest ''RUN pip3 install'')))"

text \<open>
  The end of the three extraction patterns, \<^verbatim>\<open>(.+?)[\s\\]*\n\<close>: a lazy group of one or more
  characters of a line, a greedy run of white space and backslashes, a newline. The
  result is the group and the number of characters matched.
\<close>

definition group_to_eol :: "string \<Rightarrow> (string \<times> nat) option" where
  "group_to_eol s =
     lazy dot 1 s (\<lambda>g r.
       greedy space_or_bs 0 r (\<lambda>t r'.
         (case r' of
            [] \<Rightarrow> None
          | c # cs \<Rightarrow> if c = nl then Some (g, length g + length t + 1) else None)))"

text \<open>\<^verbatim>\<open>r'install -y\s+(.+?)[\s\\]*\n'\<close>, the package list of an apt-get command.\<close>

definition apt_pkg_pattern :: "string \<Rightarrow> (string \<times> nat) option" where
  "apt_pkg_pattern s =
     (case lit ''install -y'' s of
        None \<Rightarrow> None
      | Some r \<Rightarrow>
          greedy isspace 1 r (\<lambda>w r'.
            map_option (\<lambda>(g, n). (g, length ''install -y'' + length w + n)) (group_to_eol r')))"

text \<open>\<^verbatim>\<open>r'install\s+(.+?)[\s\\]*\n'\<close>, the package list of a pip command.\<close>

definition pip_pkg_pattern :: "string \<Rightarrow> (string \<times> nat) option" where
  "pip_pkg_pattern s =
     (case lit ''install'' s of
        None \<Rightarrow> None
      | Some r \<Rightarrow>
          greedy isspace 1 r (\<lambda>w r'.
            map_option (\<lambda>(g, n). (g, length ''install'' + length w + n)) (group_to_eol r')))"

text \<open>
  \<^verbatim>\<open>copy_pattern = r'COPY\s+(.+?)\s+(.+?)[\s\\]*\n'\<close>: two groups, so \<^verbatim>\<open>re.findall\<close> returns
  the pairs (source, destination).
\<close>

definition copy_pattern :: "string \<Rightarrow> ((string \<times> string) \<times> nat) option" where
  "copy_pattern s =
     (case lit ''COPY'' s of
        None \<Rightarrow> None
      | Some r \<Rightarrow>
          greedy isspace 1 r (\<lambda>w1 r1.
            lazy dot 1 r1 (\<lambda>src r2.
              greedy isspace 1 r2 (\<lambda>w2 r3.
                map_option
                  (\<lambda>(dest, n). ((src, dest),
                     length ''COPY'' + length w1 + length src + length w2 + n))
                  (group_to_eol r3)))))"

text \<open>\<^verbatim>\<open>re.sub(r'\n\n+', '\n\n', s)\<close>: a run of two or more newlines becomes two.\<close>

function collapse_blank_lines :: "string \<Rightarrow> string" where
  "collapse_blank_lines (a # b # cs) =
     (if a = nl \<and> b = nl then nl # nl # collapse_blank_lines (dropWhile (\<lambda>c. c = nl) cs)
      else a # collapse_blank_lines (b # cs))"
| "collapse_blank_lines [c] = [c]"
| "collapse_blank_lines [] = []"
  by pat_completeness auto

termination
proof (relation "measure length")
  fix a b :: char and cs :: string
  have "length (dropWhile (\<lambda>c. c = nl) cs) \<le> length cs"
    by (rule length_dropWhile_le)
  then show "(dropWhile (\<lambda>c. c = nl) cs, a # b # cs) \<in> measure length"
    by simp
qed auto

section \<open>The package-install passes\<close>

text \<open>
  The package names of the matched commands, in the order in which
  \<^verbatim>\<open>packages.update(pkg_matches[0].split() if pkg_matches else [])\<close> meets them: the group
  of the first match of the extraction pattern in each command, split at white space.
\<close>

definition packages_of :: "(string \<Rightarrow> (string \<times> nat) option) \<Rightarrow> string list \<Rightarrow> string list" where
  "packages_of pat cmds =
     concat (map (\<lambda>cmd. case findall pat cmd of [] \<Rightarrow> [] | g # gs \<Rightarrow> py_split g) cmds)"

text \<open>\<^verbatim>\<open>sorted(packages)\<close> of the Python set: each name once, ascending by code points.\<close>

definition sorted_packages :: "string list \<Rightarrow> string list" where
  "sorted_packages pkgs = sort (remdups pkgs)"

text \<open>The merged apt-get instruction built from the set of package names.\<close>

definition apt_combined_command :: "string list \<Rightarrow> string" where
  "apt_combined_command pkgs =
     ''RUN apt-get update && '' @ [bs, nl] @
     ''    DEBIAN_FRONTEND=noninteractive '' @ [bs, nl] @
     ''    apt-get install -y --no-install-recommends '' @ [bs, nl] @
     ''        '' @ py_join ('' '' @ [bs, nl] @ ''        '') (sorted_packages pkgs) @
       '' '' @ [bs, nl] @
     ''    && apt-get clean '' @ [bs, nl] @
     ''    && rm -rf /var/lib/apt/lists/*''"

text \<open>
  The loop \<^verbatim>\<open>for cmd in cmds: content = content.replace(cmd, '')\<close> followed by the
  \<^verbatim>\<open>re.sub\<close> that collapses the blank lines.
\<close>

definition remove_commands :: "string list \<Rightarrow> string \<Rightarrow> string" where
  "remove_commands cmds content = fold remove_all cmds content"

definition cleaned :: "string list \<Rightarrow> string \<Rightarrow> string" where
  "cleaned cmds content = collapse_blank_lines (remove_commands cmds content)"

text \<open>
  \<^verbatim>\<open>from_idx = content.find('\n', content.find('FROM'))\<close> and the splice
  \<^verbatim>\<open>content[:from_idx] + '\n' + combined_command + content[from_idx:]\<close>. Neither
  \<^verbatim>\<open>find\<close> raises: a missing \<open>FROM\<close> or newline gives the index \<open>-1\<close>, which the slices
  read as the last character.
\<close>

definition from_idx :: "string \<Rightarrow> int" where
  "from_idx content = py_find content [nl] (py_find content ''FROM'' 0)"

definition insert_after_from :: "string \<Rightarrow> string \<Rightarrow> string" where
  "insert_after_from combined content =
     slice_to content (from_idx content) @ [nl] @ combined @ slice_from content (from_idx content)"

definition optimize_apt_commands :: "string \<Rightarrow> string" where
  "optimize_apt_commands content =
     (let apt_commands = findall apt_pattern content
      in if apt_commands = [] then content
         else insert_after_from
                (apt_combined_command (packages_of apt_pkg_pattern apt_commands))
                (cleaned apt_commands content))"

text \<open>
  The files the code can write: a map from a path to the text stored there. A path is in
  the domain when something exists at it.
\<close>

type_synonym files = "string \<rightharpoonup> string"

text \<open>
  The merged pip instruction is a fixed text. The package names go to the file
  \<^verbatim>\<open>requirements.txt\<close> of the working directory, opened with mode \<^verbatim>\<open>'w'\<close> whenever a pip
  command was matched: the function returns the files with the text.
\<close>

definition pip_combined_command :: string where
  "pip_combined_command =
     ''COPY requirements.txt /tmp/\<newline>'' @
     ''RUN pip install --no-cache-dir -r /tmp/requirements.txt && '' @ [bs, nl] @
     ''    rm /tmp/requirements.txt''"

definition optimize_pip_commands :: "files \<Rightarrow> string \<Rightarrow> files \<times> string" where
  "optimize_pip_commands fs content =
     (let pip_commands = findall pip_pattern content
      in if pip_commands = [] then (fs, content)
         else (fs(''requirements.txt'' \<mapsto>
                    py_join [nl] (sorted_packages (packages_of pip_pkg_pattern pip_commands))),
               insert_after_from pip_combined_command (cleaned pip_commands content)))"

section \<open>The copy pass and the ignore list\<close>

definition dockerignore_entries :: "string list" where
  "dockerignore_entries =
     [''.git'', ''.gitignore'', ''Dockerfile'', ''.dockerignore'', ''__pycache__'',
      ''*.pyc'', ''*.pyo'', ''*.pyd'', ''.Python'', ''env'', ''pip-log.txt'',
      ''pip-delete-this-directory.txt'', ''.tox'', ''.coverage'', ''.coverage.*'',
      ''htmlcov'', ''.pytest_cache'', ''.env'', ''.venv'', ''venv'', ''node_modules'',
      ''npm-debug.log'']"

text \<open>
  \<^verbatim>\<open>copy_groups\<close> is a dict from a destination to the list of its sources. A dict keeps
  its keys in the order of their insertion, so it is an association list here: a new
  destination goes to the end, a known one gets the source appended in place.
\<close>

type_synonym copy_groups = "(string \<times> string list) list"

definition add_copy :: "copy_groups \<Rightarrow> string \<times> string \<Rightarrow> copy_groups" where
  "add_copy groups cmd =
     (case cmd of (src, dest) \<Rightarrow>
        if dest \<in> set (map fst groups)
        then map (\<lambda>(d, sources). if d = dest then (d, sources @ [src]) else (d, sources)) groups
        else groups @ [(dest, [src])])"

definition group_copies :: "(string \<times> string) list \<Rightarrow> copy_groups" where
  "group_copies copy_commands = foldl add_copy [] copy_commands"

text \<open>
  One instruction per destination: \<^verbatim>\<open>f'COPY {sources[0]} {dest}'\<close> for a single source,
  \<^verbatim>\<open>f'COPY {sources_str} {dest}/'\<close> otherwise.
\<close>

definition optimized_copy :: "string \<times> string list \<Rightarrow> string" where
  "optimized_copy g =
     (case g of
        (dest, [source]) \<Rightarrow> ''COPY '' @ source @ '' '' @ dest
      | (dest, sources) \<Rightarrow> ''COPY '' @ py_join '' '' sources @ '' '' @ dest @ ''/'')"

definition optimized_copies :: "(string \<times> string) list \<Rightarrow> string list" where
  "optimized_copies copy_commands = map optimized_copy (group_copies copy_commands)"

text \<open>
  The loop \<^verbatim>\<open>content = content.replace(f'COPY {cmd_src} {cmd_dest}', '')\<close> over the matched
  pairs.
\<close>

definition remove_copies :: "(string \<times> string) list \<Rightarrow> string \<Rightarrow> string" where
  "remove_copies copy_commands content =
     fold (\<lambda>(cmd_src, cmd_dest). remove_all (''COPY '' @ cmd_src @ '' '' @ cmd_dest))
       copy_commands content"

text \<open>The insertion point: the first \<open>CMD\<close> of the text, its end when there is none.\<close>

definition copy_insert_point :: "string \<Rightarrow> int" where
  "copy_insert_point content =
     (if py_find content ''CMD'' 0 = - 1 then int (length content)
      else py_find content ''CMD'' 0)"

definition optimize_copy_commands :: "string \<Rightarrow> string \<times> string list" where
  "optimize_copy_commands content =
     (let copy_commands = findall copy_pattern content
      in if copy_commands = [] then (content, dockerignore_entries)
         else (let removed = remove_copies copy_commands content
               in (slice_to removed (copy_insert_point removed) @
                   py_join [nl] (optimized_copies copy_commands) @ [nl] @
                   slice_from removed (copy_insert_point removed),
                   dockerignore_entries)))"

section \<open>The build arguments and the pipeline\<close>

definition build_args :: string where
  "build_args =
     ''# Build arguments for optimization\<newline>'' @
     ''ARG BUILDKIT_INLINE_CACHE=1\<newline>'' @
     ''ARG DOCKER_BUILDKIT=1\<newline>''"

definition add_build_optimization_args :: "string \<Rightarrow> string" where
  "add_build_optimization_args content = build_args @ content"

text \<open>
  The four passes as \<^verbatim>\<open>DockerfileAnalyzer.analyze_dockerfile\<close> runs them on the text it
  has read: apt, pip, copy, build arguments. The result is the files, the rewritten text
  and the ignore entries.
\<close>

definition rewrite :: "files \<Rightarrow> string \<Rightarrow> files \<times> string \<times> string list" where
  "rewrite fs content =
     (let c1 = optimize_apt_commands content;
          (fs', c2) = optimize_pip_commands fs c1;
          (c3, entries) = optimize_copy_commands c2;
          c4 = add_build_optimization_args c3
      in (fs', c4, entries))"

definition rewrite_text :: "string \<Rightarrow> string" where
  "rewrite_text content = fst (snd (rewrite Map.empty content))"

text \<open>
  The persistence step of \<^verbatim>\<open>analyze_dockerfile\<close>: the entries, joined by newlines, are
  written to the path of the ignore file when nothing exists there. The path is
  \<^verbatim>\<open>Path(dockerfile_path).parent / '.dockerignore'\<close>, a parameter here.
\<close>

definition save_dockerignore :: "files \<Rightarrow> string \<Rightarrow> string list \<Rightarrow> files" where
  "save_dockerignore fs dockerignore_path entries =
     (if fs dockerignore_path = None
      then fs(dockerignore_path \<mapsto> py_join [nl] entries)
      else fs)"

definition analyze_rewrite :: "files \<Rightarrow> string \<Rightarrow> string \<Rightarrow> files \<times> string" where
  "analyze_rewrite fs dockerignore_path content =
     (case rewrite fs content of
        (fs', text, entries) \<Rightarrow> (save_dockerignore fs' dockerignore_path entries, text))"

text \<open>The example document that \<^verbatim>\<open>main\<close> writes when there is no Dockerfile.\<close>

definition example_dockerfile :: string where
  "example_dockerfile =
     ''FROM ubuntu:latest\<newline>'' @
     ''RUN apt-get update && apt-get install -y python3\<newline>'' @
     ''RUN apt-get update && apt-get install -y nginx\<newline>'' @
     ''RUN pip3 install flask\<newline>'' @
     ''RUN pip3 install requests\<newline>'' @
     ''COPY app.py /app/\<newline>'' @
     ''RUN chmod +x /app/app.py\<newline>'' @
     ''EXPOSE 8080\<newline>'' @
     ''CMD ['' @ [CHR 0x22] @ ''/app/app.py'' @ [CHR 0x22] @ '']''"


section \<open>The build-argument pass\<close>

text \<open>
  C10. For every input text \<open>d\<close>, \<open>add_build_optimization_args\<close> returns the fixed block (the
  comment header and the two \<open>ARG\<close> lines) followed by \<open>d\<close>: the block is the prefix of the
  result and \<open>d\<close>, unchanged, is what follows it. This holds for the empty text and for a
  text with no \<open>FROM\<close> as for any other, since the function does not look at \<open>d\<close>.
\<close>

theorem add_build_optimization_args_prepends:
  "add_build_optimization_args d =
     ''# Build arguments for optimization\<newline>ARG BUILDKIT_INLINE_CACHE=1\<newline>ARG DOCKER_BUILDKIT=1\<newline>'' @ d
   \<and> take (length build_args) (add_build_optimization_args d) = build_args
   \<and> drop (length build_args) (add_build_optimization_args d) = d
   \<and> add_build_optimization_args [] = build_args"
  by (simp add: add_build_optimization_args_def build_args_def)

section \<open>The ignore list and the files\<close>

lemma rewrite_entries: "snd (snd (rewrite fs d)) = dockerignore_entries"
  by (simp add: rewrite_def optimize_copy_commands_def Let_def case_prod_beta)

lemma optimize_pip_commands_frame:
  "p \<noteq> ''requirements.txt'' \<Longrightarrow> fst (optimize_pip_commands fs d) p = fs p"
  by (simp add: optimize_pip_commands_def Let_def)

lemma rewrite_frame:
  "p \<noteq> ''requirements.txt'' \<Longrightarrow> fst (rewrite fs d) p = fs p"
  using optimize_pip_commands_frame [of p fs "optimize_apt_commands d"]
  by (simp add: rewrite_def Let_def case_prod_beta)

text \<open>
  C8. The ignore entries returned for any two documents are the same fixed list: the copy
  pass returns \<open>dockerignore_entries\<close> whatever the document, and so does the pipeline
  whatever the files. The persistence step writes the joined entries to the path of the
  ignore file when nothing exists there, and leaves the files as they are when something
  does; through the whole of \<open>analyze_rewrite\<close> an ignore file that exists keeps its text
  (its path ends in \<^verbatim>\<open>.dockerignore\<close>, so it is not the \<^verbatim>\<open>requirements.txt\<close> that the pip
  pass writes).
\<close>

theorem ignore_list_stable:
  "snd (optimize_copy_commands d1) = snd (optimize_copy_commands d2)
   \<and> snd (optimize_copy_commands d1) = dockerignore_entries
   \<and> snd (snd (rewrite fs1 d1)) = snd (snd (rewrite fs2 d2))
   \<and> (fs p = None \<longrightarrow> save_dockerignore fs p entries = fs(p \<mapsto> py_join [nl] entries))
   \<and> (fs p \<noteq> None \<longrightarrow> save_dockerignore fs p entries = fs)
   \<and> (fs p \<noteq> None \<and> p \<noteq> ''requirements.txt'' \<longrightarrow>
        fst (analyze_rewrite fs p d1) p = fs p)"
proof -
  have a: "snd (optimize_copy_commands d) = dockerignore_entries" for d
    by (simp add: optimize_copy_commands_def Let_def)
  have b: "fst (analyze_rewrite fs p d1) p = fs p"
    if "fs p \<noteq> None" "p \<noteq> ''requirements.txt''"
    using that rewrite_frame [of p fs d1]
    by (auto simp: analyze_rewrite_def save_dockerignore_def split: prod.splits)
  show ?thesis
    using a b by (simp add: rewrite_entries save_dockerignore_def)
qed

theorem ignore_list_stable_witness:
  "snd (optimize_copy_commands example_dockerfile) = snd (optimize_copy_commands [])
   \<and> snd (optimize_copy_commands example_dockerfile) = dockerignore_entries
   \<and> save_dockerignore Map.empty ''.dockerignore'' dockerignore_entries ''.dockerignore''
       = Some (py_join [nl] dockerignore_entries)
   \<and> save_dockerignore [''.dockerignore'' \<mapsto> ''.git''] ''.dockerignore'' dockerignore_entries
       = [''.dockerignore'' \<mapsto> ''.git'']
   \<and> fst (analyze_rewrite [''.dockerignore'' \<mapsto> ''.git''] ''.dockerignore'' example_dockerfile)
         ''.dockerignore'' = Some ''.git''"
  using ignore_list_stable [of example_dockerfile "[]" Map.empty Map.empty Map.empty
      "''.dockerignore''" dockerignore_entries]
    ignore_list_stable [of example_dockerfile "[]" Map.empty Map.empty
      "[''.dockerignore'' \<mapsto> ''.git'']" "''.dockerignore''" dockerignore_entries]
  by simp

section \<open>Running the pipeline on its own output\<close>

text \<open>No match of the three scanning patterns starts inside the build-argument block.\<close>

lemma findall_apt_build_args:
  "findall apt_pattern (build_args @ d) = findall apt_pattern d"
  by (simp add: build_args_def apt_pattern_def lit_def)

lemma findall_pip_build_args:
  "findall pip_pattern (build_args @ d) = findall pip_pattern d"
  by (simp add: build_args_def pip_pattern_def lit_def)

lemma findall_copy_build_args:
  "findall copy_pattern (build_args @ d) = findall copy_pattern d"
  by (simp add: build_args_def copy_pattern_def lit_def)

lemma rewrite_text_no_match:
  assumes "findall apt_pattern d = []" and "findall pip_pattern d = []"
    and "findall copy_pattern d = []"
  shows "rewrite_text d = build_args @ d"
  using assms
  by (simp add: rewrite_text_def rewrite_def optimize_apt_commands_def
      optimize_pip_commands_def optimize_copy_commands_def add_build_optimization_args_def)

lemma build_args_twice_neq: "build_args @ build_args @ d \<noteq> build_args @ d"
proof -
  have "length (build_args @ build_args @ d) \<noteq> length (build_args @ d)"
    by (simp add: build_args_def)
  then show ?thesis
    by metis
qed

lemma small_document_no_match:
  "findall apt_pattern ''FROM ubuntu:latest\<newline>EXPOSE 8080\<newline>'' = []"
  "findall pip_pattern ''FROM ubuntu:latest\<newline>EXPOSE 8080\<newline>'' = []"
  "findall copy_pattern ''FROM ubuntu:latest\<newline>EXPOSE 8080\<newline>'' = []"
  by (simp_all add: apt_pattern_def pip_pattern_def copy_pattern_def lit_def)

text \<open>
  C1, as stated, fails: the pipeline is not idempotent. For the valid two-line document
  below, with a base image and nothing to merge, the second run returns a text that
  differs from the result of the first: it carries the build-argument block twice.
\<close>

theorem rewrite_not_idempotent:
  "rewrite_text (rewrite_text ''FROM ubuntu:latest\<newline>EXPOSE 8080\<newline>'') \<noteq>
     rewrite_text ''FROM ubuntu:latest\<newline>EXPOSE 8080\<newline>''"
proof -
  let ?d = "''FROM ubuntu:latest\<newline>EXPOSE 8080\<newline>''"
  have one: "rewrite_text ?d = build_args @ ?d"
    by (rule rewrite_text_no_match [OF small_document_no_match])
  have two: "rewrite_text (build_args @ ?d) = build_args @ build_args @ ?d"
    by (rule rewrite_text_no_match)
      (simp_all only: findall_apt_build_args findall_pip_build_args findall_copy_build_args
        small_document_no_match)
  show ?thesis
    unfolding one two by (rule build_args_twice_neq)
qed

text \<open>
  C1, amended. For every document in which the scanner finds no apt-get command, no pip
  command and no copy instruction, the pipeline returns the build-argument block followed
  by the document, and a run on that output returns the block followed by that output:
  every run prepends the block once more, so the second result is never the first.
\<close>

theorem rewrite_twice_prepends_again:
  assumes "findall apt_pattern d = []" and "findall pip_pattern d = []"
    and "findall copy_pattern d = []"
  shows "rewrite_text d = build_args @ d
    \<and> rewrite_text (rewrite_text d) = build_args @ rewrite_text d
    \<and> rewrite_text (rewrite_text d) \<noteq> rewrite_text d"
proof -
  have one: "rewrite_text d = build_args @ d"
    using assms by (rule rewrite_text_no_match)
  have two: "rewrite_text (build_args @ d) = build_args @ build_args @ d"
    using assms
    by (intro rewrite_text_no_match)
      (simp_all add: findall_apt_build_args findall_pip_build_args findall_copy_build_args)
  from one two build_args_twice_neq [of d] show ?thesis
    by simp
qed

theorem rewrite_twice_prepends_again_witness:
  "rewrite_text ''FROM ubuntu:latest\<newline>EXPOSE 8080\<newline>'' =
     build_args @ ''FROM ubuntu:latest\<newline>EXPOSE 8080\<newline>''
   \<and> rewrite_text (rewrite_text ''FROM ubuntu:latest\<newline>EXPOSE 8080\<newline>'') =
     build_args @ rewrite_text ''FROM ubuntu:latest\<newline>EXPOSE 8080\<newline>''
   \<and> rewrite_text (rewrite_text ''FROM ubuntu:latest\<newline>EXPOSE 8080\<newline>'') \<noteq>
     rewrite_text ''FROM ubuntu:latest\<newline>EXPOSE 8080\<newline>''"
  by (rule rewrite_twice_prepends_again [OF small_document_no_match])

section \<open>Evaluating the matchers\<close>

text \<open>
  The two repetitions, unfolded along the subject: the equations by which a match on a
  concrete text is computed.
\<close>

lemma first_some_append:
  "first_some f (xs @ ys) =
     (case first_some f xs of Some r \<Rightarrow> Some r | None \<Rightarrow> first_some f ys)"
  by (induction xs) (auto split: option.splits)

lemma first_some_map: "first_some f (map g xs) = first_some (\<lambda>i. f (g i)) xs"
  by (induction xs) (auto split: option.splits)

lemma upt_Suc_shift: "[Suc lo ..< Suc n] = map Suc [lo ..< n]"
  by (simp add: map_Suc_upt)

lemma upt_0_Suc: "[0 ..< Suc n] = 0 # map Suc [0 ..< n]"
  by (simp add: upt_conv_Cons map_Suc_upt del: upt_Suc)

lemma lazy_Nil: "lazy cls lo [] k = (if lo = 0 then k [] [] else None)"
  by (simp add: lazy_def split: option.splits)

lemma lazy_Cons_Suc:
  "lazy cls (Suc lo) (c # cs) k = (if cls c then lazy cls lo cs (\<lambda>g. k (c # g)) else None)"
  by (simp add: lazy_def first_some_map upt_Suc_shift del: upt_Suc)

lemma lazy_Cons_0:
  "lazy cls 0 (c # cs) k =
     (case k [] (c # cs) of
        Some r \<Rightarrow> Some r
      | None \<Rightarrow> if cls c then lazy cls 0 cs (\<lambda>g. k (c # g)) else None)"
  by (simp add: lazy_def first_some_map upt_0_Suc del: upt_Suc split: option.splits)

lemma greedy_Nil: "greedy cls lo [] k = (if lo = 0 then k [] [] else None)"
  by (simp add: greedy_def split: option.splits)

lemma greedy_Cons_Suc:
  "greedy cls (Suc lo) (c # cs) k = (if cls c then greedy cls lo cs (\<lambda>g. k (c # g)) else None)"
  by (simp add: greedy_def first_some_map upt_Suc_shift rev_map del: upt_Suc)

lemma greedy_Cons_0:
  "greedy cls 0 (c # cs) k =
     (if cls c
      then (case greedy cls 0 cs (\<lambda>g. k (c # g)) of
              Some r \<Rightarrow> Some r
            | None \<Rightarrow> k [] (c # cs))
      else k [] (c # cs))"
  by (simp add: greedy_def first_some_map first_some_append upt_0_Suc rev_map del: upt_Suc
      split: option.splits)

lemmas matcher_eval =
  lazy_Nil lazy_Cons_Suc lazy_Cons_0 greedy_Nil greedy_Cons_Suc greedy_Cons_0
  lit_def span_rest_def group_to_eol_def dot_def dot_all_def isspace_def space_or_bs_def

lemmas find_eval = from_idx_def py_find_def slice_to_def slice_from_def slice_bound_def

section \<open>The example document, pass by pass\<close>

lemma example_apt_commands:
  "findall apt_pattern example_dockerfile =
     [''RUN apt-get update && apt-get install -y python3'',
      ''RUN apt-get update && apt-get install -y nginx'']"
  by (simp add: example_dockerfile_def apt_pattern_def matcher_eval)

lemma example_apt_packages:
  "packages_of apt_pkg_pattern
     [''RUN apt-get update && apt-get install -y python3'',
      ''RUN apt-get update && apt-get install -y nginx''] = []"
  by (simp add: packages_of_def apt_pkg_pattern_def matcher_eval)

lemma example_apt_cleaned:
  "cleaned
     [''RUN apt-get update && apt-get install -y python3'',
      ''RUN apt-get update && apt-get install -y nginx''] example_dockerfile =
     ''FROM ubuntu:latest\<newline>'' @
     ''\<newline>'' @
     ''RUN pip3 install flask\<newline>'' @
     ''RUN pip3 install requests\<newline>'' @
     ''COPY app.py /app/\<newline>'' @
     ''RUN chmod +x /app/app.py\<newline>'' @
     ''EXPOSE 8080\<newline>'' @
     ''CMD ['' @ [CHR 0x22] @ ''/app/app.py'' @ [CHR 0x22] @ '']''"
  by (simp add: cleaned_def remove_commands_def example_dockerfile_def)

lemma example_apt_insert:
  "insert_after_from combined
     (''FROM ubuntu:latest\<newline>'' @
     ''\<newline>'' @
     ''RUN pip3 install flask\<newline>'' @
     ''RUN pip3 install requests\<newline>'' @
     ''COPY app.py /app/\<newline>'' @
     ''RUN chmod +x /app/app.py\<newline>'' @
     ''EXPOSE 8080\<newline>'' @
     ''CMD ['' @ [CHR 0x22] @ ''/app/app.py'' @ [CHR 0x22] @ '']'') =
     ''FROM ubuntu:latest\<newline>'' @ combined @
     ''\<newline>'' @
     ''\<newline>'' @
     ''RUN pip3 install flask\<newline>'' @
     ''RUN pip3 install requests\<newline>'' @
     ''COPY app.py /app/\<newline>'' @
     ''RUN chmod +x /app/app.py\<newline>'' @
     ''EXPOSE 8080\<newline>'' @
     ''CMD ['' @ [CHR 0x22] @ ''/app/app.py'' @ [CHR 0x22] @ '']''"
  by (simp add: insert_after_from_def find_eval)

lemma example_after_apt:
  "optimize_apt_commands example_dockerfile =
     ''FROM ubuntu:latest\<newline>'' @
     apt_combined_command (packages_of apt_pkg_pattern (findall apt_pattern example_dockerfile)) @
     ''\<newline>'' @
     ''\<newline>'' @
     ''RUN pip3 install flask\<newline>'' @
     ''RUN pip3 install requests\<newline>'' @
     ''COPY app.py /app/\<newline>'' @
     ''RUN chmod +x /app/app.py\<newline>'' @
     ''EXPOSE 8080\<newline>'' @
     ''CMD ['' @ [CHR 0x22] @ ''/app/app.py'' @ [CHR 0x22] @ '']''"
  by (simp only: optimize_apt_commands_def Let_def example_apt_commands example_apt_cleaned
      example_apt_insert list.simps if_False)

lemma example_apt_text:
  "optimize_apt_commands example_dockerfile =
     ''FROM ubuntu:latest\<newline>'' @
     ''RUN apt-get update && '' @ [bs, nl] @
     ''    DEBIAN_FRONTEND=noninteractive '' @ [bs, nl] @
     ''    apt-get install -y --no-install-recommends '' @ [bs, nl] @
     ''         '' @ [bs, nl] @
     ''    && apt-get clean '' @ [bs, nl] @
     ''    && rm -rf /var/lib/apt/lists/*\<newline>'' @
     ''\<newline>'' @
     ''RUN pip3 install flask\<newline>'' @
     ''RUN pip3 install requests\<newline>'' @
     ''COPY app.py /app/\<newline>'' @
     ''RUN chmod +x /app/app.py\<newline>'' @
     ''EXPOSE 8080\<newline>'' @
     ''CMD ['' @ [CHR 0x22] @ ''/app/app.py'' @ [CHR 0x22] @ '']''"
  by (simp add: example_after_apt example_apt_commands example_apt_packages
      apt_combined_command_def sorted_packages_def)

lemma example_pip_commands:
  "findall pip_pattern (optimize_apt_commands example_dockerfile) =
     [''RUN pip3 install flask'', ''RUN pip3 install requests'']"
  by (simp add: example_apt_text pip_pattern_def matcher_eval)

lemma example_pip_packages:
  "packages_of pip_pkg_pattern [''RUN pip3 install flask'', ''RUN pip3 install requests''] = []"
  by (simp add: packages_of_def pip_pkg_pattern_def matcher_eval)

lemma example_pip_cleaned:
  "cleaned [''RUN pip3 install flask'', ''RUN pip3 install requests''] (optimize_apt_commands example_dockerfile) =
     ''FROM ubuntu:latest\<newline>'' @
     ''RUN apt-get update && '' @ [bs, nl] @
     ''    DEBIAN_FRONTEND=noninteractive '' @ [bs, nl] @
     ''    apt-get install -y --no-install-recommends '' @ [bs, nl] @
     ''         '' @ [bs, nl] @
     ''    && apt-get clean '' @ [bs, nl] @
     ''    && rm -rf /var/lib/apt/lists/*\<newline>'' @
     ''\<newline>'' @
     ''COPY app.py /app/\<newline>'' @
     ''RUN chmod +x /app/app.py\<newline>'' @
     ''EXPOSE 8080\<newline>'' @
     ''CMD ['' @ [CHR 0x22] @ ''/app/app.py'' @ [CHR 0x22] @ '']''"
  by (simp add: example_apt_text cleaned_def remove_commands_def)

lemma example_pip_insert:
  "insert_after_from combined
     (''FROM ubuntu:latest\<newline>'' @
     ''RUN apt-get update && '' @ [bs, nl] @
     ''    DEBIAN_FRONTEND=noninteractive '' @ [bs, nl] @
     ''    apt-get install -y --no-install-recommends '' @ [bs, nl] @
     ''         '' @ [bs, nl] @
     ''    && apt-get clean '' @ [bs, nl] @
     ''    && rm -rf /var/lib/apt/lists/*\<newline>'' @
     ''\<newline>'' @
     ''COPY app.py /app/\<newline>'' @
     ''RUN chmod +x /app/app.py\<newline>'' @
     ''EXPOSE 8080\<newline>'' @
     ''CMD ['' @ [CHR 0x22] @ ''/app/app.py'' @ [CHR 0x22] @ '']'') =
     ''FROM ubuntu:latest\<newline>'' @ combined @
     ''\<newline>'' @
      ''RUN apt-get update && '' @ [bs, nl] @
      ''    DEBIAN_FRONTEND=noninteractive '' @ [bs, nl] @
      ''    apt-get install -y --no-install-recommends '' @ [bs, nl] @
      ''         '' @ [bs, nl] @
      ''    && apt-get clean '' @ [bs, nl] @
      ''    && rm -rf /var/lib/apt/lists/*\<newline>'' @
      ''\<newline>'' @
      ''COPY app.py /app/\<newline>'' @
      ''RUN chmod +x /app/app.py\<newline>'' @
      ''EXPOSE 8080\<newline>'' @
      ''CMD ['' @ [CHR 0x22] @ ''/app/app.py'' @ [CHR 0x22] @ '']''"
  by (simp add: insert_after_from_def find_eval)

lemma example_after_pip:
  "optimize_pip_commands fs (optimize_apt_commands example_dockerfile) =
     (fs(''requirements.txt'' \<mapsto> []),
      ''FROM ubuntu:latest\<newline>'' @ pip_combined_command @
      ''\<newline>'' @
      ''RUN apt-get update && '' @ [bs, nl] @
      ''    DEBIAN_FRONTEND=noninteractive '' @ [bs, nl] @
      ''    apt-get install -y --no-install-recommends '' @ [bs, nl] @
      ''         '' @ [bs, nl] @
      ''    && apt-get clean '' @ [bs, nl] @
      ''    && rm -rf /var/lib/apt/lists/*\<newline>'' @
      ''\<newline>'' @
      ''COPY app.py /app/\<newline>'' @
      ''RUN chmod +x /app/app.py\<newline>'' @
      ''EXPOSE 8080\<newline>'' @
      ''CMD ['' @ [CHR 0x22] @ ''/app/app.py'' @ [CHR 0x22] @ '']'')"
  by (simp only: optimize_pip_commands_def Let_def example_pip_commands example_pip_cleaned
      example_pip_insert example_pip_packages list.simps if_False sorted_packages_def
      remdups.simps sort_key_simps py_join.simps)

lemma example_pip_text:
  "snd (optimize_pip_commands fs (optimize_apt_commands example_dockerfile)) =
     ''FROM ubuntu:latest\<newline>'' @
     ''COPY requirements.txt /tmp/\<newline>'' @
     ''RUN pip install --no-cache-dir -r /tmp/requirements.txt && '' @ [bs, nl] @
     ''    rm /tmp/requirements.txt\<newline>'' @
     ''RUN apt-get update && '' @ [bs, nl] @
     ''    DEBIAN_FRONTEND=noninteractive '' @ [bs, nl] @
     ''    apt-get install -y --no-install-recommends '' @ [bs, nl] @
     ''         '' @ [bs, nl] @
     ''    && apt-get clean '' @ [bs, nl] @
     ''    && rm -rf /var/lib/apt/lists/*\<newline>'' @
     ''\<newline>'' @
     ''COPY app.py /app/\<newline>'' @
     ''RUN chmod +x /app/app.py\<newline>'' @
     ''EXPOSE 8080\<newline>'' @
     ''CMD ['' @ [CHR 0x22] @ ''/app/app.py'' @ [CHR 0x22] @ '']''"
  by (simp add: example_after_pip pip_combined_command_def)

lemma example_copy_commands:
  "findall copy_pattern
     (snd (optimize_pip_commands fs (optimize_apt_commands example_dockerfile))) =
     [(''requirements.txt'', ''/tmp/''), (''app.py'', ''/app/'')]"
  by (simp add: example_pip_text copy_pattern_def matcher_eval)

lemma example_copy_removed:
  "remove_copies [(''requirements.txt'', ''/tmp/''), (''app.py'', ''/app/'')]
     (snd (optimize_pip_commands fs (optimize_apt_commands example_dockerfile))) =
     ''FROM ubuntu:latest\<newline>'' @
     ''\<newline>'' @
     ''RUN pip install --no-cache-dir -r /tmp/requirements.txt && '' @ [bs, nl] @
     ''    rm /tmp/requirements.txt\<newline>'' @
     ''RUN apt-get update && '' @ [bs, nl] @
     ''    DEBIAN_FRONTEND=noninteractive '' @ [bs, nl] @
     ''    apt-get install -y --no-install-recommends '' @ [bs, nl] @
     ''         '' @ [bs, nl] @
     ''    && apt-get clean '' @ [bs, nl] @
     ''    && rm -rf /var/lib/apt/lists/*\<newline>'' @
     ''\<newline>'' @
     ''\<newline>'' @
     ''RUN chmod +x /app/app.py\<newline>'' @
     ''EXPOSE 8080\<newline>'' @
     ''CMD ['' @ [CHR 0x22] @ ''/app/app.py'' @ [CHR 0x22] @ '']''"
  by (simp add: example_pip_text remove_copies_def)

lemma example_optimized_copies:
  "optimized_copies [(''requirements.txt'', ''/tmp/''), (''app.py'', ''/app/'')] =
     [''COPY requirements.txt /tmp/'', ''COPY app.py /app/'']"
  by (simp add: optimized_copies_def group_copies_def add_copy_def optimized_copy_def)

lemma example_copy_insert:
  "slice_to (''FROM ubuntu:latest\<newline>'' @
     ''\<newline>'' @
     ''RUN pip install --no-cache-dir -r /tmp/requirements.txt && '' @ [bs, nl] @
     ''    rm /tmp/requirements.txt\<newline>'' @
     ''RUN apt-get update && '' @ [bs, nl] @
     ''    DEBIAN_FRONTEND=noninteractive '' @ [bs, nl] @
     ''    apt-get install -y --no-install-recommends '' @ [bs, nl] @
     ''         '' @ [bs, nl] @
     ''    && apt-get clean '' @ [bs, nl] @
     ''    && rm -rf /var/lib/apt/lists/*\<newline>'' @
     ''\<newline>'' @
     ''\<newline>'' @
     ''RUN chmod +x /app/app.py\<newline>'' @
     ''EXPOSE 8080\<newline>'' @
     ''CMD ['' @ [CHR 0x22] @ ''/app/app.py'' @ [CHR 0x22] @ '']'')
     (copy_insert_point (''FROM ubuntu:latest\<newline>'' @
     ''\<newline>'' @
     ''RUN pip install --no-cache-dir -r /tmp/requirements.txt && '' @ [bs, nl] @
     ''    rm /tmp/requirements.txt\<newline>'' @
     ''RUN apt-get update && '' @ [bs, nl] @
     ''    DEBIAN_FRONTEND=noninteractive '' @ [bs, nl] @
     ''    apt-get install -y --no-install-recommends '' @ [bs, nl] @
     ''         '' @ [bs, nl] @
     ''    && apt-get clean '' @ [bs, nl] @
     ''    && rm -rf /var/lib/apt/lists/*\<newline>'' @
     ''\<newline>'' @
     ''\<newline>'' @
     ''RUN chmod +x /app/app.py\<newline>'' @
     ''EXPOSE 8080\<newline>'' @
     ''CMD ['' @ [CHR 0x22] @ ''/app/app.py'' @ [CHR 0x22] @ '']'')) @ inserted @
   slice_from (''FROM ubuntu:latest\<newline>'' @
     ''\<newline>'' @
     ''RUN pip install --no-cache-dir -r /tmp/requirements.txt && '' @ [bs, nl] @
     ''    rm /tmp/requirements.txt\<newline>'' @
     ''RUN apt-get update && '' @ [bs, nl] @
     ''    DEBIAN_FRONTEND=noninteractive '' @ [bs, nl] @
     ''    apt-get install -y --no-install-recommends '' @ [bs, nl] @
     ''         '' @ [bs, nl] @
     ''    && apt-get clean '' @ [bs, nl] @
     ''    && rm -rf /var/lib/apt/lists/*\<newline>'' @
     ''\<newline>'' @
     ''\<newline>'' @
     ''RUN chmod +x /app/app.py\<newline>'' @
     ''EXPOSE 8080\<newline>'' @
     ''CMD ['' @ [CHR 0x22] @ ''/app/app.py'' @ [CHR 0x22] @ '']'')
     (copy_insert_point (''FROM ubuntu:latest\<newline>'' @
     ''\<newline>'' @
     ''RUN pip install --no-cache-dir -r /tmp/requirements.txt && '' @ [bs, nl] @
     ''    rm /tmp/requirements.txt\<newline>'' @
     ''RUN apt-get update && '' @ [bs, nl] @
     ''    DEBIAN_FRONTEND=noninteractive '' @ [bs, nl] @
     ''    apt-get install -y --no-install-recommends '' @ [bs, nl] @
     ''         '' @ [bs, nl] @
     ''    && apt-get clean '' @ [bs, nl] @
     ''    && rm -rf /var/lib/apt/lists/*\<newline>'' @
     ''\<newline>'' @
     ''\<newline>'' @
     ''RUN chmod +x /app/app.py\<newline>'' @
     ''EXPOSE 8080\<newline>'' @
     ''CMD ['' @ [CHR 0x22] @ ''/app/app.py'' @ [CHR 0x22] @ '']'')) =
     ''FROM ubuntu:latest\<newline>'' @
     ''\<newline>'' @
     ''RUN pip install --no-cache-dir -r /tmp/requirements.txt && '' @ [bs, nl] @
     ''    rm /tmp/requirements.txt\<newline>'' @
     ''RUN apt-get update && '' @ [bs, nl] @
     ''    DEBIAN_FRONTEND=noninteractive '' @ [bs, nl] @
     ''    apt-get install -y --no-install-recommends '' @ [bs, nl] @
     ''         '' @ [bs, nl] @
     ''    && apt-get clean '' @ [bs, nl] @
     ''    && rm -rf /var/lib/apt/lists/*\<newline>'' @
     ''\<newline>'' @
     ''\<newline>'' @
     ''RUN chmod +x /app/app.py\<newline>'' @
     ''EXPOSE 8080\<newline>'' @ inserted @
     ''CMD ['' @ [CHR 0x22] @ ''/app/app.py'' @ [CHR 0x22] @ '']''"
  by (simp add: copy_insert_point_def find_eval)

lemma example_after_copy:
  "optimize_copy_commands
     (snd (optimize_pip_commands fs (optimize_apt_commands example_dockerfile))) =
     (''FROM ubuntu:latest\<newline>'' @
     ''\<newline>'' @
     ''RUN pip install --no-cache-dir -r /tmp/requirements.txt && '' @ [bs, nl] @
     ''    rm /tmp/requirements.txt\<newline>'' @
     ''RUN apt-get update && '' @ [bs, nl] @
     ''    DEBIAN_FRONTEND=noninteractive '' @ [bs, nl] @
     ''    apt-get install -y --no-install-recommends '' @ [bs, nl] @
     ''         '' @ [bs, nl] @
     ''    && apt-get clean '' @ [bs, nl] @
     ''    && rm -rf /var/lib/apt/lists/*\<newline>'' @
     ''\<newline>'' @
     ''\<newline>'' @
     ''RUN chmod +x /app/app.py\<newline>'' @
     ''EXPOSE 8080\<newline>'' @
     ''COPY requirements.txt /tmp/\<newline>'' @
     ''COPY app.py /app/\<newline>'' @
     ''CMD ['' @ [CHR 0x22] @ ''/app/app.py'' @ [CHR 0x22] @ '']'',
      dockerignore_entries)"
  by (simp add: optimize_copy_commands_def example_copy_commands example_copy_removed
      example_optimized_copies
      example_copy_insert [of "''COPY requirements.txt /tmp/\<newline>COPY app.py /app/\<newline>''", simplified]
      del: append_assoc)

lemma rewrite_unfold:
  "rewrite fs d =
     (fst (optimize_pip_commands fs (optimize_apt_commands d)),
      add_build_optimization_args
        (fst (optimize_copy_commands (snd (optimize_pip_commands fs (optimize_apt_commands d))))),
      snd (optimize_copy_commands (snd (optimize_pip_commands fs (optimize_apt_commands d)))))"
  by (simp add: rewrite_def Let_def case_prod_beta)

lemma example_rewrite:
  "rewrite fs example_dockerfile =
     (fs(''requirements.txt'' \<mapsto> []),
      build_args @
      (''FROM ubuntu:latest\<newline>'' @
       ''\<newline>'' @
       ''RUN pip install --no-cache-dir -r /tmp/requirements.txt && '' @ [bs, nl] @
       ''    rm /tmp/requirements.txt\<newline>'' @
       ''RUN apt-get update && '' @ [bs, nl] @
       ''    DEBIAN_FRONTEND=noninteractive '' @ [bs, nl] @
       ''    apt-get install -y --no-install-recommends '' @ [bs, nl] @
       ''         '' @ [bs, nl] @
       ''    && apt-get clean '' @ [bs, nl] @
       ''    && rm -rf /var/lib/apt/lists/*\<newline>'' @
       ''\<newline>'' @
       ''\<newline>'' @
       ''RUN chmod +x /app/app.py\<newline>'' @
       ''EXPOSE 8080\<newline>'' @
       ''COPY requirements.txt /tmp/\<newline>'' @
       ''COPY app.py /app/\<newline>'' @
       ''CMD ['' @ [CHR 0x22] @ ''/app/app.py'' @ [CHR 0x22] @ '']''),
      dockerignore_entries)"
  unfolding rewrite_unfold add_build_optimization_args_def example_after_copy
  by (simp only: example_after_pip fst_conv snd_conv)


text \<open>
  C3, evaluated at the example document. The names \<open>python3\<close> and \<open>nginx\<close> stand in two
  matched apt-get commands of the input. A matched command ends before the newline that
  closes its line, and the extraction pattern needs a newline after the names: it finds
  nothing in either command, the set of packages is empty, and neither name occurs in the
  text that \<open>optimize_apt_commands\<close> returns.
\<close>

theorem apt_packages_lost_on_example:
  "find_index ''python3'' example_dockerfile = Some 60
   \<and> find_index ''nginx'' example_dockerfile = Some 109
   \<and> packages_of apt_pkg_pattern (findall apt_pattern example_dockerfile) = []
   \<and> find_index ''python3'' (optimize_apt_commands example_dockerfile) = None
   \<and> find_index ''nginx'' (optimize_apt_commands example_dockerfile) = None"
proof -
  have "find_index ''python3'' example_dockerfile = Some 60"
    and "find_index ''nginx'' example_dockerfile = Some 109"
    by (simp_all add: example_dockerfile_def)
  moreover have "find_index ''python3'' (optimize_apt_commands example_dockerfile) = None"
    and "find_index ''nginx'' (optimize_apt_commands example_dockerfile) = None"
    by (simp_all add: example_apt_text)
  ultimately show ?thesis
    by (simp only: example_apt_commands example_apt_packages simp_thms)
qed

text \<open>
  C7, evaluated at the example document of \<open>main\<close>. None of the four package names
  occurs anywhere in the text that the pipeline returns: the extraction finds no name in
  the two apt-get commands and none in the two pip commands, so the merged instruction
  lists no package.
\<close>

theorem example_install_not_merged:
  "packages_of apt_pkg_pattern (findall apt_pattern example_dockerfile) = []
   \<and> packages_of pip_pkg_pattern
        (findall pip_pattern (optimize_apt_commands example_dockerfile)) = []
   \<and> find_index ''flask'' (rewrite_text example_dockerfile) = None
   \<and> find_index ''nginx'' (rewrite_text example_dockerfile) = None
   \<and> find_index ''python3'' (rewrite_text example_dockerfile) = None
   \<and> find_index ''requests'' (rewrite_text example_dockerfile) = None"
proof -
  have "find_index ''flask'' (rewrite_text example_dockerfile) = None"
    and "find_index ''nginx'' (rewrite_text example_dockerfile) = None"
    and "find_index ''python3'' (rewrite_text example_dockerfile) = None"
    and "find_index ''requests'' (rewrite_text example_dockerfile) = None"
    by (simp_all add: rewrite_text_def example_rewrite build_args_def)
  then show ?thesis
    by (simp only: example_apt_commands example_apt_packages example_pip_commands
        example_pip_packages simp_thms)
qed

section \<open>What the passes write\<close>

lemma rewrite_files:
  "fst (rewrite fs d) = fst (optimize_pip_commands fs (optimize_apt_commands d))"
  by (simp add: rewrite_def Let_def case_prod_beta)

text \<open>
  C9, as stated, fails: one of the package-install passes writes a file. Run on the
  example document with no file at all, the pipeline leaves a file \<^verbatim>\<open>requirements.txt\<close>
  behind.
\<close>

theorem rewrite_writes_requirements_file:
  "fst (rewrite Map.empty example_dockerfile) ''requirements.txt'' = Some []
   \<and> fst (rewrite Map.empty example_dockerfile) \<noteq> Map.empty"
proof -
  have "fst (rewrite Map.empty example_dockerfile) ''requirements.txt'' = Some []"
    by (simp add: example_rewrite)
  then show ?thesis
    by (metis option.distinct(1))
qed

text \<open>
  C9, amended. \<open>optimize_apt_commands\<close>, \<open>optimize_copy_commands\<close> and
  \<open>add_build_optimization_args\<close> take a text and return a text (and the ignore list): they
  have no access to the files. \<open>optimize_pip_commands\<close> leaves the files as they are when it
  matches no pip command, and otherwise writes the sorted package names, joined by
  newlines, to \<^verbatim>\<open>requirements.txt\<close>. The files after the four passes are those after the pip
  pass, and every path other than \<^verbatim>\<open>requirements.txt\<close> holds what it held before. No pass
  reads the environment.
\<close>

theorem pip_pass_writes_requirements:
  "(findall pip_pattern d = [] \<longrightarrow> fst (optimize_pip_commands fs d) = fs)
   \<and> (findall pip_pattern d \<noteq> [] \<longrightarrow>
        fst (optimize_pip_commands fs d) =
          fs(''requirements.txt'' \<mapsto>
             py_join [nl] (sorted_packages (packages_of pip_pkg_pattern (findall pip_pattern d)))))
   \<and> fst (rewrite fs d) = fst (optimize_pip_commands fs (optimize_apt_commands d))
   \<and> (p \<noteq> ''requirements.txt'' \<longrightarrow> fst (rewrite fs d) p = fs p)"
  using rewrite_frame [of p fs d]
  by (simp add: optimize_pip_commands_def Let_def rewrite_files)

lemma pip_document_commands:
  "findall pip_pattern ''FROM python:3\<newline>RUN pip install flask\<newline>\<newline>CMD app'' =
     [''RUN pip install flask\<newline>'']"
  by (simp add: pip_pattern_def matcher_eval)

lemma pip_document_packages:
  "packages_of pip_pkg_pattern [''RUN pip install flask\<newline>''] = [''flask'']"
  by (simp add: packages_of_def pip_pkg_pattern_def matcher_eval py_split_def)

theorem pip_pass_writes_requirements_witness:
  "fst (optimize_pip_commands Map.empty ''FROM python:3\<newline>CMD app'') = Map.empty
   \<and> fst (optimize_pip_commands Map.empty
          ''FROM python:3\<newline>RUN pip install flask\<newline>\<newline>CMD app'') =
       [''requirements.txt'' \<mapsto> ''flask'']
   \<and> fst (rewrite [''.dockerignore'' \<mapsto> ''.git'']
          ''FROM python:3\<newline>RUN pip install flask\<newline>\<newline>CMD app'') ''.dockerignore'' =
       Some ''.git''"
proof -
  have none: "findall pip_pattern ''FROM python:3\<newline>CMD app'' = []"
    by (simp add: pip_pattern_def matcher_eval)
  have a: "fst (optimize_pip_commands Map.empty ''FROM python:3\<newline>CMD app'') = Map.empty"
    using pip_pass_writes_requirements [of "''FROM python:3\<newline>CMD app''" Map.empty "[]"] none
    by blast
  have b: "fst (optimize_pip_commands Map.empty
          ''FROM python:3\<newline>RUN pip install flask\<newline>\<newline>CMD app'') =
       [''requirements.txt'' \<mapsto> ''flask'']"
    using pip_pass_writes_requirements
      [of "''FROM python:3\<newline>RUN pip install flask\<newline>\<newline>CMD app''" Map.empty "[]",
        unfolded pip_document_commands pip_document_packages]
    by (simp add: sorted_packages_def)
  have c: "fst (rewrite [''.dockerignore'' \<mapsto> ''.git'']
          ''FROM python:3\<newline>RUN pip install flask\<newline>\<newline>CMD app'') ''.dockerignore'' =
       Some ''.git''"
    using pip_pass_writes_requirements
      [of "''FROM python:3\<newline>RUN pip install flask\<newline>\<newline>CMD app''"
        "[''.dockerignore'' \<mapsto> ''.git'']" "''.dockerignore''",
        THEN conjunct2, THEN conjunct2, THEN conjunct2]
    by simp
  from a b c show ?thesis by blast
qed

section \<open>Grouping the copy instructions\<close>

lemma group_copies_snoc:
  "group_copies (cmds @ [cmd]) = add_copy (group_copies cmds) cmd"
  by (simp add: group_copies_def)

lemma group_copies_eq:
  "group_copies cmds =
     map (\<lambda>d. (d, map fst (filter (\<lambda>c. snd c = d) cmds))) (rev (remdups (rev (map snd cmds))))"
proof (induction cmds rule: rev_induct)
  case Nil
  show ?case by (simp add: group_copies_def)
next
  case (snoc cmd cmds)
  obtain src dest where cmd: "cmd = (src, dest)"
    by (cases cmd)
  let ?keys = "rev (remdups (rev (map snd cmds)))"
  have keys: "set ?keys = snd ` set cmds"
    by simp
  show ?case
  proof (cases "dest \<in> snd ` set cmds")
    case True
    then show ?thesis
      using snoc.IH
      by (auto simp: group_copies_snoc cmd add_copy_def comp_def image_iff)
  next
    case False
    then have none: "filter (\<lambda>c. snd c = dest) cmds = []"
      by (auto simp: filter_empty_conv)
    have other: "d \<noteq> dest" if "d \<in> set ?keys" for d
      using that False by auto
    from False show ?thesis
      using snoc.IH other
      by (auto simp: group_copies_snoc cmd add_copy_def none comp_def image_iff)
  qed
qed

lemma group_copies_three:
  "x \<noteq> y \<Longrightarrow> group_copies [(a, x), (b, x), (c, y)] = [(x, [a, b]), (y, [c])]"
  by (simp add: group_copies_def add_copy_def)

text \<open>
  C5. When the scanner finds the copy instructions \<open>a \<rightarrow> x\<close>, \<open>b \<rightarrow> x\<close>, \<open>c \<rightarrow> y\<close> in a
  document, with \<open>x\<close> and \<open>y\<close> different, the instructions emitted are exactly two: one for
  \<open>x\<close> that lists \<open>a\<close> and \<open>b\<close> and appends \<open>/\<close> to the destination, then the
  two-argument one for \<open>c\<close> and \<open>y\<close>; the text returned is the text without the old
  instructions, with these two lines at the insertion point. For any list of matched
  instructions, the groups come in the order in which their destinations first occur, each
  with its sources in the order of the document.
\<close>

theorem copy_grouping:
  assumes "findall copy_pattern d = [(a, x), (b, x), (c, y)]" and "x \<noteq> y"
  shows "optimized_copies (findall copy_pattern d) =
           [''COPY '' @ a @ '' '' @ b @ '' '' @ x @ ''/'', ''COPY '' @ c @ '' '' @ y]
    \<and> fst (optimize_copy_commands d) =
         slice_to (remove_copies [(a, x), (b, x), (c, y)] d)
           (copy_insert_point (remove_copies [(a, x), (b, x), (c, y)] d)) @
         (''COPY '' @ a @ '' '' @ b @ '' '' @ x @ ''/'' @ [nl] @
          ''COPY '' @ c @ '' '' @ y @ [nl]) @
         slice_from (remove_copies [(a, x), (b, x), (c, y)] d)
           (copy_insert_point (remove_copies [(a, x), (b, x), (c, y)] d))
    \<and> map fst (group_copies cmds) = rev (remdups (rev (map snd cmds)))
    \<and> group_copies cmds =
         map (\<lambda>dest. (dest, map fst (filter (\<lambda>cmd. snd cmd = dest) cmds)))
           (rev (remdups (rev (map snd cmds))))"
proof -
  have copies: "optimized_copies [(a, x), (b, x), (c, y)] =
      [''COPY '' @ a @ '' '' @ b @ '' '' @ x @ ''/'', ''COPY '' @ c @ '' '' @ y]"
    using assms(2) by (simp add: optimized_copies_def group_copies_three optimized_copy_def)
  have keys: "map fst (group_copies cmds) = rev (remdups (rev (map snd cmds)))"
    by (subst group_copies_eq) (simp add: comp_def)
  show ?thesis
    using group_copies_eq [of cmds] keys
    by (simp add: optimize_copy_commands_def Let_def assms(1) copies)
qed

lemma three_copies_found:
  "findall copy_pattern ''COPY A /x\<newline>COPY B /x\<newline>COPY C /y\<newline>'' =
     [(''A'', ''/x''), (''B'', ''/x''), (''C'', ''/y'')]"
  by (simp add: copy_pattern_def matcher_eval)

lemma three_copies_removed:
  "remove_copies [(''A'', ''/x''), (''B'', ''/x''), (''C'', ''/y'')]
     ''COPY A /x\<newline>COPY B /x\<newline>COPY C /y\<newline>'' = ''\<newline>\<newline>\<newline>''"
  by (simp add: remove_copies_def)

theorem copy_grouping_witness:
  "findall copy_pattern ''COPY A /x\<newline>COPY B /x\<newline>COPY C /y\<newline>'' =
     [(''A'', ''/x''), (''B'', ''/x''), (''C'', ''/y'')]
   \<and> optimized_copies (findall copy_pattern ''COPY A /x\<newline>COPY B /x\<newline>COPY C /y\<newline>'') =
     [''COPY A B /x/'', ''COPY C /y'']
   \<and> fst (optimize_copy_commands ''COPY A /x\<newline>COPY B /x\<newline>COPY C /y\<newline>'') =
     ''\<newline>\<newline>\<newline>COPY A B /x/\<newline>COPY C /y\<newline>''
   \<and> map fst (group_copies [(''C'', ''/y''), (''A'', ''/x''), (''B'', ''/y'')]) = [''/y'', ''/x'']"
proof -
  have neq: "''/x'' \<noteq> ''/y''"
    by simp
  note t = copy_grouping [OF three_copies_found neq,
      of "[(''C'', ''/y''), (''A'', ''/x''), (''B'', ''/y'')]",
      unfolded three_copies_found three_copies_removed]
  have t2: "optimized_copies [(''A'', ''/x''), (''B'', ''/x''), (''C'', ''/y'')] =
      [''COPY A B /x/'', ''COPY C /y'']
    \<and> fst (optimize_copy_commands ''COPY A /x\<newline>COPY B /x\<newline>COPY C /y\<newline>'') =
      ''\<newline>\<newline>\<newline>COPY A B /x/\<newline>COPY C /y\<newline>''
    \<and> map fst (group_copies [(''C'', ''/y''), (''A'', ''/x''), (''B'', ''/y'')]) = [''/y'', ''/x'']"
    using t by (simp add: copy_insert_point_def find_eval)
  show ?thesis
    unfolding three_copies_found by (rule conjI [OF refl t2])
qed

section \<open>The merged apt-get instruction under a reordering\<close>

lemma nginx_curl_commands:
  "findall apt_pattern
     ''FROM debian\<newline>RUN apt-get update && apt-get install -y nginx\<newline>RUN apt-get update && apt-get install -y curl\<newline>\<newline>CMD app'' =
     [''RUN apt-get update && apt-get install -y nginx'',
      ''RUN apt-get update && apt-get install -y curl\<newline>'']"
  by (simp add: apt_pattern_def matcher_eval)

lemma curl_nginx_commands:
  "findall apt_pattern
     ''FROM debian\<newline>RUN apt-get update && apt-get install -y curl\<newline>RUN apt-get update && apt-get install -y nginx\<newline>\<newline>CMD app'' =
     [''RUN apt-get update && apt-get install -y curl'',
      ''RUN apt-get update && apt-get install -y nginx\<newline>'']"
  by (simp add: apt_pattern_def matcher_eval)

lemma nginx_curl_packages:
  "packages_of apt_pkg_pattern
     [''RUN apt-get update && apt-get install -y nginx'',
      ''RUN apt-get update && apt-get install -y curl\<newline>''] = [''curl'']"
  by (simp add: packages_of_def apt_pkg_pattern_def matcher_eval py_split_def)

lemma curl_nginx_packages:
  "packages_of apt_pkg_pattern
     [''RUN apt-get update && apt-get install -y curl'',
      ''RUN apt-get update && apt-get install -y nginx\<newline>''] = [''nginx'']"
  by (simp add: packages_of_def apt_pkg_pattern_def matcher_eval py_split_def)

lemma nginx_curl_cleaned:
  "cleaned
     [''RUN apt-get update && apt-get install -y nginx'',
      ''RUN apt-get update && apt-get install -y curl\<newline>'']
     ''FROM debian\<newline>RUN apt-get update && apt-get install -y nginx\<newline>RUN apt-get update && apt-get install -y curl\<newline>\<newline>CMD app'' =
     ''FROM debian\<newline>\<newline>CMD app''"
  by (simp add: cleaned_def remove_commands_def)

lemma curl_nginx_cleaned:
  "cleaned
     [''RUN apt-get update && apt-get install -y curl'',
      ''RUN apt-get update && apt-get install -y nginx\<newline>'']
     ''FROM debian\<newline>RUN apt-get update && apt-get install -y curl\<newline>RUN apt-get update && apt-get install -y nginx\<newline>\<newline>CMD app'' =
     ''FROM debian\<newline>\<newline>CMD app''"
  by (simp add: cleaned_def remove_commands_def)

lemma debian_insert:
  "insert_after_from combined ''FROM debian\<newline>\<newline>CMD app'' =
     ''FROM debian\<newline>'' @ combined @ ''\<newline>\<newline>CMD app''"
  by (simp add: insert_after_from_def find_eval)

text \<open>
  C4, evaluated at two documents that differ only in the order of their two apt-get
  lines. In each, only the command that a blank line follows keeps its newline inside
  the match, and only there does the extraction find a name: the merged instruction lists
  \<open>curl\<close> alone for the first document and \<open>nginx\<close> alone for the second, and the two
  results of \<open>optimize_apt_commands\<close> differ.
\<close>

theorem apt_instruction_changes_with_order:
  "optimize_apt_commands
     ''FROM debian\<newline>RUN apt-get update && apt-get install -y nginx\<newline>RUN apt-get update && apt-get install -y curl\<newline>\<newline>CMD app'' =
     ''FROM debian\<newline>'' @ apt_combined_command [''curl''] @ ''\<newline>\<newline>CMD app''
   \<and> optimize_apt_commands
     ''FROM debian\<newline>RUN apt-get update && apt-get install -y curl\<newline>RUN apt-get update && apt-get install -y nginx\<newline>\<newline>CMD app'' =
     ''FROM debian\<newline>'' @ apt_combined_command [''nginx''] @ ''\<newline>\<newline>CMD app''
   \<and> apt_combined_command [''curl''] =
     ''RUN apt-get update && '' @ [bs, nl] @
     ''    DEBIAN_FRONTEND=noninteractive '' @ [bs, nl] @
     ''    apt-get install -y --no-install-recommends '' @ [bs, nl] @
     ''        curl '' @ [bs, nl] @
     ''    && apt-get clean '' @ [bs, nl] @
     ''    && rm -rf /var/lib/apt/lists/*''
   \<and> apt_combined_command [''nginx''] =
     ''RUN apt-get update && '' @ [bs, nl] @
     ''    DEBIAN_FRONTEND=noninteractive '' @ [bs, nl] @
     ''    apt-get install -y --no-install-recommends '' @ [bs, nl] @
     ''        nginx '' @ [bs, nl] @
     ''    && apt-get clean '' @ [bs, nl] @
     ''    && rm -rf /var/lib/apt/lists/*''
   \<and> optimize_apt_commands
     ''FROM debian\<newline>RUN apt-get update && apt-get install -y nginx\<newline>RUN apt-get update && apt-get install -y curl\<newline>\<newline>CMD app'' \<noteq>
     optimize_apt_commands
     ''FROM debian\<newline>RUN apt-get update && apt-get install -y curl\<newline>RUN apt-get update && apt-get install -y nginx\<newline>\<newline>CMD app''"
proof -
  have a: "optimize_apt_commands
     ''FROM debian\<newline>RUN apt-get update && apt-get install -y nginx\<newline>RUN apt-get update && apt-get install -y curl\<newline>\<newline>CMD app'' =
     ''FROM debian\<newline>'' @ apt_combined_command [''curl''] @ ''\<newline>\<newline>CMD app''"
    by (simp only: optimize_apt_commands_def Let_def nginx_curl_commands nginx_curl_packages
        nginx_curl_cleaned debian_insert list.simps if_False)
  have b: "optimize_apt_commands
     ''FROM debian\<newline>RUN apt-get update && apt-get install -y curl\<newline>RUN apt-get update && apt-get install -y nginx\<newline>\<newline>CMD app'' =
     ''FROM debian\<newline>'' @ apt_combined_command [''nginx''] @ ''\<newline>\<newline>CMD app''"
    by (simp only: optimize_apt_commands_def Let_def curl_nginx_commands curl_nginx_packages
        curl_nginx_cleaned debian_insert list.simps if_False)
  have c: "apt_combined_command [''curl''] =
     ''RUN apt-get update && '' @ [bs, nl] @
     ''    DEBIAN_FRONTEND=noninteractive '' @ [bs, nl] @
     ''    apt-get install -y --no-install-recommends '' @ [bs, nl] @
     ''        curl '' @ [bs, nl] @
     ''    && apt-get clean '' @ [bs, nl] @
     ''    && rm -rf /var/lib/apt/lists/*''"
    and d: "apt_combined_command [''nginx''] =
     ''RUN apt-get update && '' @ [bs, nl] @
     ''    DEBIAN_FRONTEND=noninteractive '' @ [bs, nl] @
     ''    apt-get install -y --no-install-recommends '' @ [bs, nl] @
     ''        nginx '' @ [bs, nl] @
     ''    && apt-get clean '' @ [bs, nl] @
     ''    && rm -rf /var/lib/apt/lists/*''"
    by (simp_all add: apt_combined_command_def sorted_packages_def)
  have "''FROM debian\<newline>'' @ apt_combined_command [''curl''] @ ''\<newline>\<newline>CMD app'' \<noteq>
      ''FROM debian\<newline>'' @ apt_combined_command [''nginx''] @ ''\<newline>\<newline>CMD app''"
    by (simp add: c d)
  with a b c d show ?thesis
    by (simp only: simp_thms)
qed

section \<open>Where the merged instruction is inserted\<close>



lemma py_find_from_start:
  "find_index sub s = Some i \<Longrightarrow> py_find s sub 0 = int i"
  "find_index sub s = None \<Longrightarrow> py_find s sub 0 = - 1"
  by (simp_all add: py_find_def)



lemma from_idx_missing:
  assumes "find_index ''FROM'' c = None"
  shows "from_idx c = - 1 \<or> (c \<noteq> [] \<and> from_idx c = int (length c) - 1)"
proof (cases "c = []")
  case True
  then show ?thesis
    by (simp add: from_idx_def py_find_def)
next
  case False
  have f: "from_idx c = py_find c [nl] (- 1)"
    by (simp add: from_idx_def py_find_from_start(2) [OF assms])
  from False have d: "drop (length c - 1) c = [last c]"
    by (metis Suc_diff_1 append_butlast_last_id append_eq_conv_conj length_butlast
        length_greater_0_conv)
  from False have n: "nat (int (length c) - 1) = length c - 1" and pos: "0 < length c"
    by (simp_all add: nat_diff_distrib')
  have "py_find c [nl] (- 1) =
      (case find_index [nl] [last c] of None \<Rightarrow> - 1 | Some i \<Rightarrow> int (length c) - 1 + int i)"
    using pos n d by (simp add: py_find_def Let_def max_def)
  then show ?thesis
    using False by (simp add: f split: if_splits)
qed

lemma insert_after_from_missing:
  assumes "find_index ''FROM'' c = None"
  shows "insert_after_from combined c =
           take (length c - 1) c @ [nl] @ combined @ drop (length c - 1) c"
proof -
  have a: "slice_bound c (- 1) = length c - 1"
    by (auto simp: slice_bound_def Let_def min_def max_def nat_diff_distrib')
  have b: "slice_bound c (int (length c) - 1) = length c - 1" if "c \<noteq> []"
    using that by (auto simp: slice_bound_def Let_def min_def max_def nat_diff_distrib')
  from from_idx_missing [OF assms] show ?thesis
    by (auto simp: insert_after_from_def slice_to_def slice_from_def a b)
qed

lemma no_from_commands:
  "findall apt_pattern ''RUN apt-get update && apt-get install -y curl\<newline>CMD app'' =
     [''RUN apt-get update && apt-get install -y curl'']"
  by (simp add: apt_pattern_def matcher_eval)

lemma no_from_cleaned:
  "cleaned [''RUN apt-get update && apt-get install -y curl'']
     ''RUN apt-get update && apt-get install -y curl\<newline>CMD app'' = ''\<newline>CMD app''"
  by (simp add: cleaned_def remove_commands_def)

lemma no_from_in_cleaned: "find_index ''FROM'' ''\<newline>CMD app'' = None"
  by simp

text \<open>
  C2, as stated, fails: nothing is raised for a document that has an apt-get command and
  no \<open>FROM\<close>. The function returns a rewritten document, with the merged instruction put
  before the last character of what is left of the text.
\<close>

theorem missing_from_returns_document:
  "find_index ''FROM'' ''RUN apt-get update && apt-get install -y curl\<newline>CMD app'' = None
   \<and> findall apt_pattern ''RUN apt-get update && apt-get install -y curl\<newline>CMD app'' =
       [''RUN apt-get update && apt-get install -y curl'']
   \<and> optimize_apt_commands ''RUN apt-get update && apt-get install -y curl\<newline>CMD app'' =
       ''\<newline>CMD ap\<newline>'' @
       apt_combined_command [] @ ''p''"
proof -
  have a: "find_index ''FROM'' ''RUN apt-get update && apt-get install -y curl\<newline>CMD app'' = None"
    by simp
  have p: "packages_of apt_pkg_pattern [''RUN apt-get update && apt-get install -y curl''] = []"
    by (simp add: packages_of_def apt_pkg_pattern_def matcher_eval)
  have b: "optimize_apt_commands ''RUN apt-get update && apt-get install -y curl\<newline>CMD app'' =
       ''\<newline>CMD ap\<newline>'' @ apt_combined_command [] @ ''p''"
    unfolding optimize_apt_commands_def Let_def no_from_commands no_from_cleaned p
      insert_after_from_missing [OF no_from_in_cleaned]
    by simp
  show ?thesis
    unfolding no_from_commands using a b by simp
qed

lemma insert_after_from_splits:
  "\<exists>a b. content = a @ b \<and> insert_after_from combined content = a @ [nl] @ combined @ b"
proof (intro exI conjI)
  show "content = slice_to content (from_idx content) @ slice_from content (from_idx content)"
    by (simp add: slice_to_def slice_from_def)
  show "insert_after_from combined content =
      slice_to content (from_idx content) @ [nl] @ combined @
      slice_from content (from_idx content)"
    by (simp add: insert_after_from_def)
qed

text \<open>
  C2, amended. Neither package-install pass raises anything, whether the document has a
  \<open>FROM\<close> or not: when a pass has matched a command it returns a document, namely the text
  left after the removal of the matched commands with a newline and the merged
  instruction (which begins with the update command, or with the copy of the requirements
  file) inserted in it. Nothing is said here of the place of the insertion when there is
  no \<open>FROM\<close>.
\<close>

theorem package_passes_return_document:
  "(findall apt_pattern d \<noteq> [] \<longrightarrow>
      (\<exists>a b. cleaned (findall apt_pattern d) d = a @ b \<and>
         optimize_apt_commands d =
           a @ [nl] @ apt_combined_command (packages_of apt_pkg_pattern (findall apt_pattern d)) @ b))
   \<and> (findall pip_pattern d \<noteq> [] \<longrightarrow>
      (\<exists>a b. cleaned (findall pip_pattern d) d = a @ b \<and>
         snd (optimize_pip_commands fs d) = a @ [nl] @ pip_combined_command @ b))
   \<and> prefix ''RUN apt-get update && '' (apt_combined_command pkgs)
   \<and> prefix ''COPY requirements.txt /tmp/'' pip_combined_command"
proof (intro conjI impI)
  assume "findall apt_pattern d \<noteq> []"
  then have "optimize_apt_commands d =
      insert_after_from (apt_combined_command (packages_of apt_pkg_pattern (findall apt_pattern d)))
        (cleaned (findall apt_pattern d) d)"
    by (simp add: optimize_apt_commands_def Let_def)
  then show "\<exists>a b. cleaned (findall apt_pattern d) d = a @ b \<and>
      optimize_apt_commands d =
        a @ [nl] @ apt_combined_command (packages_of apt_pkg_pattern (findall apt_pattern d)) @ b"
    using insert_after_from_splits by simp
next
  assume "findall pip_pattern d \<noteq> []"
  then have "snd (optimize_pip_commands fs d) =
      insert_after_from pip_combined_command (cleaned (findall pip_pattern d) d)"
    by (simp add: optimize_pip_commands_def Let_def)
  then show "\<exists>a b. cleaned (findall pip_pattern d) d = a @ b \<and>
      snd (optimize_pip_commands fs d) = a @ [nl] @ pip_combined_command @ b"
    using insert_after_from_splits by simp
next
  show "prefix ''RUN apt-get update && '' (apt_combined_command pkgs)"
    by (simp add: apt_combined_command_def)
  show "prefix ''COPY requirements.txt /tmp/'' pip_combined_command"
    by (simp add: pip_combined_command_def)
qed

lemma no_from_pip_commands:
  "findall pip_pattern ''RUN pip install flask\<newline>CMD app'' = [''RUN pip install flask'']"
  by (simp add: pip_pattern_def matcher_eval)

theorem package_passes_return_document_witness:
  "find_index ''FROM'' ''RUN apt-get update && apt-get install -y curl\<newline>CMD app'' = None
   \<and> findall apt_pattern ''RUN apt-get update && apt-get install -y curl\<newline>CMD app'' =
       [''RUN apt-get update && apt-get install -y curl'']
   \<and> (\<exists>a b. ''\<newline>CMD app'' = a @ b \<and>
         optimize_apt_commands ''RUN apt-get update && apt-get install -y curl\<newline>CMD app'' =
           a @ [nl] @
           apt_combined_command
             (packages_of apt_pkg_pattern [''RUN apt-get update && apt-get install -y curl'']) @ b)
   \<and> find_index ''FROM'' ''RUN pip install flask\<newline>CMD app'' = None
   \<and> findall pip_pattern ''RUN pip install flask\<newline>CMD app'' = [''RUN pip install flask'']
   \<and> (\<exists>a b. cleaned [''RUN pip install flask''] ''RUN pip install flask\<newline>CMD app'' = a @ b \<and>
         snd (optimize_pip_commands Map.empty ''RUN pip install flask\<newline>CMD app'') =
           a @ [nl] @ pip_combined_command @ b)"
proof -
  have a: "[''RUN apt-get update && apt-get install -y curl''] \<noteq> []"
    and b: "[''RUN pip install flask''] \<noteq> []"
    by simp_all
  note t1 = package_passes_return_document
    [of "''RUN apt-get update && apt-get install -y curl\<newline>CMD app''" Map.empty "[]",
      THEN conjunct1, unfolded no_from_commands no_from_cleaned, rule_format, OF a]
  note t2 = package_passes_return_document
    [of "''RUN pip install flask\<newline>CMD app''" Map.empty "[]",
      THEN conjunct2, THEN conjunct1, unfolded no_from_pip_commands, rule_format, OF b]
  have f1: "find_index ''FROM'' ''RUN apt-get update && apt-get install -y curl\<newline>CMD app'' = None"
    and f2: "find_index ''FROM'' ''RUN pip install flask\<newline>CMD app'' = None"
    by simp_all
  show ?thesis
    unfolding no_from_commands no_from_pip_commands
    using t1 t2 f1 f2 by (intro conjI refl)
qed




end
